theory Spec2Isabelle
  imports Complex_Main
begin

section \<open>JavaScript numbers\<close>

text \<open>
  The component computes with JavaScript numbers, which are IEEE 754 binary64 values.
  A finite number is the real it denotes; the three non-finite values are kept, because
  \<open>Math.log2\<close> produces them from finite input. The sign of zero is not modelled: no
  operation of the component tells the two zeros apart.
\<close>

datatype jsnum = Num real | PosInf | NegInf | NaN

text \<open>
  Rounding to the nearest binary64 value, ties to the even significand. The spacing of
  the binary64 values around \<open>x\<close> is \<open>double_ulp x\<close>: 52 fraction bits below the
  exponent of \<open>x\<close>, and not below the exponent \<open>-1022\<close> of the subnormal range. A result
  whose magnitude reaches \<open>2\<^sup>1\<^sup>0\<^sup>2\<^sup>4\<close> overflows to an infinity.
\<close>

definition round_half_even :: "real \<Rightarrow> int" where
  "round_half_even r =
     (let n = \<lfloor>r\<rfloor>
      in if r - of_int n < 1 / 2 then n
         else if 1 / 2 < r - of_int n then n + 1
         else if even n then n else n + 1)"

definition double_ulp :: "real \<Rightarrow> real" where
  "double_ulp x = 2 powr (of_int (max \<lfloor>log 2 \<bar>x\<bar>\<rfloor> (- 1022)) - 52)"

definition round_to_double :: "real \<Rightarrow> jsnum" where
  "round_to_double x =
     (if x = 0 then Num 0
      else
        (let y = of_int (round_half_even (x / double_ulp x)) * double_ulp x
         in if 2 powr 1024 \<le> y then PosInf
            else if y \<le> - (2 powr 1024) then NegInf
            else Num y))"

text \<open>
  \<open>Math.log2\<close>. The language fixes its value at 1, at zero, below zero and at the
  non-finite values; elsewhere the result is an approximation chosen by the
  implementation, which is the parameter \<open>approximation\<close>.
\<close>

fun Math_log2 :: "(real \<Rightarrow> real) \<Rightarrow> jsnum \<Rightarrow> jsnum" where
  "Math_log2 approximation (Num x) =
     (if 0 < x then (if x = 1 then Num 0 else Num (approximation x))
      else if x = 0 then NegInf else NaN)"
| "Math_log2 approximation PosInf = PosInf"
| "Math_log2 approximation NegInf = NaN"
| "Math_log2 approximation NaN = NaN"

text \<open>Subtraction: the exact difference of two finite numbers, rounded.\<close>

fun js_sub :: "jsnum \<Rightarrow> jsnum \<Rightarrow> jsnum" where
  "js_sub NaN b = NaN"
| "js_sub a NaN = NaN"
| "js_sub (Num a) (Num b) = round_to_double (a - b)"
| "js_sub (Num a) PosInf = NegInf"
| "js_sub (Num a) NegInf = PosInf"
| "js_sub PosInf PosInf = NaN"
| "js_sub PosInf b = PosInf"
| "js_sub NegInf NegInf = NaN"
| "js_sub NegInf b = NegInf"

fun Math_floor :: "jsnum \<Rightarrow> jsnum" where
  "Math_floor (Num x) = Num (of_int \<lfloor>x\<rfloor>)"
| "Math_floor a = a"

fun js_gt :: "jsnum \<Rightarrow> jsnum \<Rightarrow> bool" where
  "js_gt NaN b = False"
| "js_gt a NaN = False"
| "js_gt (Num a) (Num b) = (b < a)"
| "js_gt PosInf PosInf = False"
| "js_gt PosInf b = True"
| "js_gt NegInf b = False"
| "js_gt (Num a) NegInf = True"
| "js_gt (Num a) PosInf = False"

section \<open>Data model\<close>

text \<open>
  A \<open>Cartesian3\<close> of the rendering engine: three coordinates. The conversions between
  degrees, radians, cartesian and cartographic coordinates belong to the engine and are
  parameters of the model (record \<open>engine\<close> below).
\<close>

datatype cartesian3 = Cartesian3 real real real

text \<open>The view rectangle of a camera, in radians, and the bounding box in degrees.\<close>

record rectangle =
  west :: real
  south :: real
  east :: real
  north :: real

record bounding_box =
  bb_west :: real
  bb_south :: real
  bb_east :: real
  bb_north :: real

text \<open>
  A feature of the places service: \<open>geometry.coordinates = [longitude, latitude]\<close> and
  \<open>properties.names.primary\<close>.
\<close>

record place =
  longitude :: real
  latitude :: real
  primary :: string

datatype color = GREENYELLOW | GREEN | WHITESMOKE | ORANGERED | BLACK
datatype label_style = FILL_AND_OUTLINE
datatype origin = CENTER | TOP
datatype arc_type = ARC_NONE

text \<open>
  The argument of \<open>entities.add\<close>. An entity has one \<open>position\<close>; the engine draws
  both its \<open>label\<close> and its \<open>point\<close> there (neither graphics object has a position
  field of its own), while the \<open>polyline\<close> carries its own list of positions. A
  \<open>DistanceDisplayCondition(near, far)\<close> is the pair \<open>(near, far)\<close>.
\<close>

record label_graphics =
  label_text :: string
  label_font :: string
  label_style :: label_style
  label_outlineWidth :: real
  label_fillColor :: color
  label_outlineColor :: color
  label_horizontalOrigin :: origin
  label_verticalOrigin :: origin
  label_pixelOffset :: "real \<times> real"
  label_distanceDisplayCondition :: "real \<times> real"
  label_disableDepthTestDistance :: jsnum

record point_graphics =
  point_pixelSize :: real
  point_color :: color
  point_outlineColor :: color
  point_outlineWidth :: real
  point_distanceDisplayCondition :: "real \<times> real"
  point_disableDepthTestDistance :: jsnum

record polyline_graphics =
  polyline_positions :: "cartesian3 list"
  polyline_width :: real
  polyline_arcType :: arc_type
  polyline_material :: color
  polyline_distanceDisplayCondition :: "real \<times> real"

record entity =
  position :: cartesian3
  label :: label_graphics
  point :: point_graphics
  polyline :: polyline_graphics

text \<open>The tileset added to the scene: its Ion asset id and \<open>maximumScreenSpaceError\<close>.\<close>

datatype tileset = Tileset nat real

text \<open>The only listener the component registers on \<open>camera.moveEnd\<close>.\<close>

datatype listener = DebouncedUpdatePlaces

text \<open>
  The camera: its position, and what \<open>computeViewRectangle()\<close> returns for it
  (\<open>None\<close> when the engine cannot compute a rectangle).
\<close>

record camera =
  camera_position :: cartesian3
  computeViewRectangle :: "rectangle option"

record viewer_options =
  baseLayerPicker :: bool
  geocoder :: bool
  homeButton :: bool
  sceneModePicker :: bool
  navigationHelpButton :: bool
  animation :: bool
  timeline :: bool
  fullscreenButton :: bool
  infoBox :: bool
  selectionIndicator :: bool

record viewer =
  options :: viewer_options
  resolutionScale :: real
  globe_show :: bool
  primitives :: "tileset list"
  entities :: "entity list"
  camera :: camera
  moveEnd_listeners :: "listener list"

text \<open>The query the component sends to the places service (the parts of \<open>apiUrl\<close>).\<close>

record places_request =
  endpoint :: string
  bbox :: bounding_box
  output_format :: string
  type_ :: string
  limit :: nat

text \<open>
  What \<open>fetch(apiUrl)\<close> followed by \<open>response.json()\<close> can do: the request fails,
  the body does not parse, the body is \<open>null\<close>, or the body is an object whose
  \<open>features\<close> field is a list of features or is missing (\<open>None\<close>, \<open>undefined\<close>).
\<close>

datatype fetch_outcome =
    FetchRejects
  | JsonRejects
  | JsonNull
  | JsonData "place list option"

datatype js_error = NetworkError | SyntaxError | TypeError | ClampError

text \<open>
  The capabilities the component is given: the engine module \<open>CesiumJs\<close>, the scene
  queries, the network and the process environment.
  \<^item> \<open>clampToHeightMostDetailed\<close> is \<open>None\<close> when the batched call fails; an entry of
    the resolved list is \<open>None\<close> where the engine could not clamp that position.
  \<^item> \<open>ellipsoid_height p\<close> is \<open>ellipsoid.cartesianToCartographic(p).height\<close> and
    \<open>cartographic_height p\<close> is \<open>Cartographic.fromCartesian(p).height\<close>.
  \<^item> \<open>fromIonAssetId\<close> tells whether the tileset of that asset id loads.
  \<^item> \<open>log2_approximation\<close> is the implementation's \<open>Math.log2\<close> on the positive finite
    numbers other than 1.
  The numbers the engine returns are finite; the height given to \<open>fromRadians\<close> is a
  sum computed by the component and may be any JavaScript number.
\<close>

record engine =
  toDegrees :: "real \<Rightarrow> real"
  toRadians :: "real \<Rightarrow> real"
  fromDegrees :: "real \<Rightarrow> real \<Rightarrow> cartesian3"
  fromRadians :: "real \<Rightarrow> real \<Rightarrow> jsnum \<Rightarrow> cartesian3"
  cartographic_height :: "cartesian3 \<Rightarrow> real"
  ellipsoid_height :: "cartesian3 \<Rightarrow> real"
  clampToHeightMostDetailed :: "cartesian3 list \<Rightarrow> cartesian3 option list option"
  fetch :: "places_request \<Rightarrow> fetch_outcome"
  fromIonAssetId :: "nat \<Rightarrow> bool"
  NEXT_PUBLIC_CESIUM_TOKEN :: string
  initial_camera :: camera
  log2_approximation :: "real \<Rightarrow> real"

text \<open>
  The state the component owns or reaches: the two refs, the engine's global access
  token, what it has sent out so far (the network requests, the lines written with
  \<open>console.error\<close>), how often the debounced refresh has been called, and whether a
  call of the debounced refresh is waiting for its timer. Durations are not modelled:
  the timer is either pending or not.
\<close>

record component =
  cesiumContainerRef :: bool
  cesiumViewer :: "viewer option"
  defaultAccessToken :: "string option"
  network :: "places_request list"
  console_error :: "string list"
  debounced_calls :: nat
  debounce_pending :: bool

definition markers :: "component \<Rightarrow> entity list" where
  "markers s = (case cesiumViewer s of None \<Rightarrow> [] | Some v \<Rightarrow> entities v)"

section \<open>Zoom eligibility\<close>

definition zoomLevel :: "engine \<Rightarrow> real \<Rightarrow> jsnum" where
  "zoomLevel E height =
     Math_floor
       (js_sub (Num 19) (Math_log2 (log2_approximation E) (round_to_double (height / 1000))))"

definition isZoomAbove15 :: "engine \<Rightarrow> component \<Rightarrow> bool" where
  "isZoomAbove15 E s =
     (case cesiumViewer s of
        Some v \<Rightarrow>
          (let cameraPosition = camera_position (camera v);
               height = ellipsoid_height E cameraPosition
           in js_gt (zoomLevel E height) (Num 15))
      | None \<Rightarrow> False)"

section \<open>Bounding box and places request\<close>

definition getCurrentBoundingBox :: "engine \<Rightarrow> component \<Rightarrow> bounding_box option" where
  "getCurrentBoundingBox E s =
     (case cesiumViewer s of
        Some v \<Rightarrow>
          (case computeViewRectangle (camera v) of
             Some r \<Rightarrow>
               Some \<lparr> bb_west = toDegrees E (west r),
                      bb_south = toDegrees E (south r),
                      bb_east = toDegrees E (east r),
                      bb_north = toDegrees E (north r) \<rparr>
           | None \<Rightarrow> None)
      | None \<Rightarrow> None)"

definition apiUrl :: "bounding_box \<Rightarrow> places_request" where
  "apiUrl b =
     \<lparr> endpoint = ''https://overture-places-api.vercel.app/api/download'',
       bbox = b,
       output_format = ''geojson'',
       type_ = ''place'',
       limit = 100 \<rparr>"

text \<open>
  The body of the \<open>try\<close> block of \<open>fetchOverturePlaces\<close>: \<open>fetch\<close> may reject,
  \<open>response.json()\<close> may reject, and reading \<open>features\<close> of \<open>null\<close> throws; otherwise
  the value of \<open>data.features\<close> is returned, which is \<open>undefined\<close> (\<open>None\<close>) when the
  body has no such field.
\<close>

definition fetch_features :: "engine \<Rightarrow> places_request \<Rightarrow> js_error + place list option" where
  "fetch_features E req =
     (case fetch E req of
        FetchRejects \<Rightarrow> Inl NetworkError
      | JsonRejects \<Rightarrow> Inl SyntaxError
      | JsonNull \<Rightarrow> Inl TypeError
      | JsonData features \<Rightarrow> Inr features)"

definition fetchOverturePlaces :: "engine \<Rightarrow> component \<Rightarrow> place list option \<times> component" where
  "fetchOverturePlaces E s =
     (if \<not> isZoomAbove15 E s then (Some [], s)
      else
        (case getCurrentBoundingBox E s of
           None \<Rightarrow> (Some [], s)
         | Some b \<Rightarrow>
             (let s1 = s\<lparr>network := network s @ [apiUrl b]\<rparr>
              in case fetch_features E (apiUrl b) of
                   Inr features \<Rightarrow> (features, s1)
                 | Inl error \<Rightarrow>
                     (Some [],
                      s1\<lparr>console_error :=
                           console_error s1 @ [''Error fetching Overture Maps data:'']\<rparr>))))"

section \<open>Place labels\<close>

text \<open>\<open>clampedCartesians[index]\<close>: \<open>undefined\<close> out of range and at an unclamped entry.\<close>

definition clamped_at :: "cartesian3 option list \<Rightarrow> nat \<Rightarrow> cartesian3 option" where
  "clamped_at clampedCartesians index =
     (if index < length clampedCartesians then clampedCartesians ! index else None)"

definition labelPosition :: "engine \<Rightarrow> place \<Rightarrow> cartesian3 \<Rightarrow> cartesian3" where
  "labelPosition E p clampedPosition =
     (let heightOffset = 20
      in fromRadians E (toRadians E (longitude p)) (toRadians E (latitude p))
           (round_to_double (cartographic_height E clampedPosition + heightOffset)))"

text \<open>The entity that the body of the \<open>forEach\<close> callback adds for one place.\<close>

definition place_entity :: "engine \<Rightarrow> place \<Rightarrow> cartesian3 \<Rightarrow> entity" where
  "place_entity E p clampedPosition =
     \<lparr> position = labelPosition E p clampedPosition,
       label =
         \<lparr> label_text = primary p,
           label_font = ''7px sans-serif'',
           label_style = FILL_AND_OUTLINE,
           label_outlineWidth = 1,
           label_fillColor = GREENYELLOW,
           label_outlineColor = GREEN,
           label_horizontalOrigin = CENTER,
           label_verticalOrigin = TOP,
           label_pixelOffset = (0, -10),
           label_distanceDisplayCondition = (0, 6000),
           label_disableDepthTestDistance = PosInf \<rparr>,
       point =
         \<lparr> point_pixelSize = 6,
           point_color = WHITESMOKE,
           point_outlineColor = ORANGERED,
           point_outlineWidth = 2,
           point_distanceDisplayCondition = (0, 6000),
           point_disableDepthTestDistance = PosInf \<rparr>,
       polyline =
         \<lparr> polyline_positions = [clampedPosition, labelPosition E p clampedPosition],
           polyline_width = 0.2,
           polyline_arcType = ARC_NONE,
           polyline_material = BLACK,
           polyline_distanceDisplayCondition = (0, 1000) \<rparr> \<rparr>"

text \<open>
  \<open>places.forEach((place, index) => ...)\<close> from \<open>index\<close> on, adding to the entities
  \<open>es\<close> already in the collection. Converting an \<open>undefined\<close> clamped position throws;
  the entities added before stay, and the error goes to the enclosing \<open>catch\<close>.
\<close>

fun forEach_place ::
  "engine \<Rightarrow> cartesian3 option list \<Rightarrow> place list \<Rightarrow> nat \<Rightarrow> entity list
     \<Rightarrow> js_error option \<times> entity list" where
  "forEach_place E clampedCartesians [] index es = (None, es)"
| "forEach_place E clampedCartesians (p # ps) index es =
     (case clamped_at clampedCartesians index of
        None \<Rightarrow> (Some TypeError, es)
      | Some clampedPosition \<Rightarrow>
          forEach_place E clampedCartesians ps (Suc index)
            (es @ [place_entity E p clampedPosition]))"

text \<open>
  The \<open>try\<close> block of \<open>addPlaceLabels\<close>, run on the emptied entity collection: the
  batched clamp, then the loop.
\<close>

definition clamp_and_label ::
  "engine \<Rightarrow> place list \<Rightarrow> js_error option \<times> entity list" where
  "clamp_and_label E places =
     (let cartesians = map (\<lambda>p. fromDegrees E (longitude p) (latitude p)) places
      in case clampToHeightMostDetailed E cartesians of
           None \<Rightarrow> (Some ClampError, [])
         | Some clampedCartesians \<Rightarrow> forEach_place E clampedCartesians places 0 [])"

text \<open>
  \<open>addPlaceLabels(places)\<close>. The argument is \<open>None\<close> when the caller passes
  \<open>undefined\<close>; \<open>places.map\<close> then throws after the entities have been removed, outside
  the \<open>try\<close>, and the error is the result. An error inside the \<open>try\<close> is logged.
\<close>

definition addPlaceLabels ::
  "engine \<Rightarrow> place list option \<Rightarrow> component \<Rightarrow> js_error option \<times> component" where
  "addPlaceLabels E places s =
     (case cesiumViewer s of
        None \<Rightarrow> (None, s)
      | Some v \<Rightarrow>
          (case places of
             None \<Rightarrow> (Some TypeError, s\<lparr>cesiumViewer := Some (v\<lparr>entities := []\<rparr>)\<rparr>)
           | Some ps \<Rightarrow>
               (case clamp_and_label E ps of
                  (None, es) \<Rightarrow> (None, s\<lparr>cesiumViewer := Some (v\<lparr>entities := es\<rparr>)\<rparr>)
                | (Some error, es) \<Rightarrow>
                    (None,
                     s\<lparr>cesiumViewer := Some (v\<lparr>entities := es\<rparr>),
                       console_error :=
                         console_error s @ [''Error clamping positions to height:'']\<rparr>))))"

section \<open>The refresh cycle\<close>

definition updatePlaces :: "engine \<Rightarrow> component \<Rightarrow> js_error option \<times> component" where
  "updatePlaces E s =
     (if isZoomAbove15 E s then
        (case fetchOverturePlaces E s of (places, s1) \<Rightarrow> addPlaceLabels E places s1)
      else
        (case cesiumViewer s of
           Some v \<Rightarrow> (None, s\<lparr>cesiumViewer := Some (v\<lparr>entities := []\<rparr>)\<rparr>)
         | None \<Rightarrow> (None, s)))"

section \<open>Bootstrap\<close>

definition add3DTiles :: "engine \<Rightarrow> component \<Rightarrow> component" where
  "add3DTiles E s =
     (case cesiumViewer s of
        Some v \<Rightarrow>
          (if fromIonAssetId E 2275207
           then s\<lparr>cesiumViewer := Some (v\<lparr>primitives := primitives v @ [Tileset 2275207 8]\<rparr>)\<rparr>
           else s\<lparr>console_error := console_error s @ [''Error loading 3D Tiles:'']\<rparr>)
      | None \<Rightarrow> s)"

text \<open>
  \<open>new CesiumJs.Viewer(container, options)\<close> followed by the two assignments to
  \<open>resolutionScale\<close> and \<open>scene.globe.show\<close>.
\<close>

definition new_Viewer :: "engine \<Rightarrow> viewer" where
  "new_Viewer E =
     \<lparr> options =
         \<lparr> baseLayerPicker = False, geocoder = False, homeButton = False,
           sceneModePicker = False, navigationHelpButton = False, animation = False,
           timeline = False, fullscreenButton = False, infoBox = False,
           selectionIndicator = False \<rparr>,
       resolutionScale = 4.0,
       globe_show = False,
       primitives = [],
       entities = [],
       camera = initial_camera E,
       moveEnd_listeners = [] \<rparr>"

definition addEventListener :: "listener \<Rightarrow> component \<Rightarrow> component" where
  "addEventListener l s =
     (case cesiumViewer s of
        Some v \<Rightarrow> s\<lparr>cesiumViewer := Some (v\<lparr>moveEnd_listeners := moveEnd_listeners v @ [l]\<rparr>)\<rparr>
      | None \<Rightarrow> s)"

text \<open>
  The debounced refresh \<open>debounce(updatePlaces, 300)\<close>. A call starts (or restarts) its
  timer; \<open>cancel\<close> drops a pending call; when the timer of a pending call runs out,
  \<open>updatePlaces\<close> is executed once.
\<close>

definition debouncedUpdatePlaces :: "component \<Rightarrow> component" where
  "debouncedUpdatePlaces s =
     s\<lparr>debounced_calls := Suc (debounced_calls s), debounce_pending := True\<rparr>"

definition debounce_cancel :: "component \<Rightarrow> component" where
  "debounce_cancel s = s\<lparr>debounce_pending := False\<rparr>"

definition debounce_timer_fires :: "engine \<Rightarrow> component \<Rightarrow> js_error option \<times> component" where
  "debounce_timer_fires E s =
     (if debounce_pending s then updatePlaces E (s\<lparr>debounce_pending := False\<rparr>)
      else (None, s))"

text \<open>
  \<open>initializeCesium\<close>, with its awaited tileset load run to completion.
\<close>

definition initializeCesium :: "engine \<Rightarrow> component \<Rightarrow> component" where
  "initializeCesium E s =
     (if cesiumContainerRef s \<and> cesiumViewer s = None then
        (let s1 = s\<lparr>defaultAccessToken := Some (NEXT_PUBLIC_CESIUM_TOKEN E)\<rparr>;
             s2 = s1\<lparr>cesiumViewer := Some (new_Viewer E)\<rparr>;
             s3 = add3DTiles E s2;
             s4 = addEventListener DebouncedUpdatePlaces s3
         in debouncedUpdatePlaces s4)
      else s)"

text \<open>
  The same function in the two parts that the \<open>await\<close> of the tileset load separates:
  what runs before the load is awaited (\<open>None\<close> when the guard fails and nothing is
  started), and what runs when the load has settled: the tileset is added or the
  failure is logged, the listener is registered and the debounced refresh is called.
  Other callbacks, the cleanup among them, can run between the two; none of them
  changes the viewer ref that \<open>add3DTiles\<close> has checked.
\<close>

definition initializeCesium_until_await :: "engine \<Rightarrow> component \<Rightarrow> component option" where
  "initializeCesium_until_await E s =
     (if cesiumContainerRef s \<and> cesiumViewer s = None then
        (let s1 = s\<lparr>defaultAccessToken := Some (NEXT_PUBLIC_CESIUM_TOKEN E)\<rparr>
         in Some (s1\<lparr>cesiumViewer := Some (new_Viewer E)\<rparr>))
      else None)"

definition initializeCesium_after_await :: "engine \<Rightarrow> component \<Rightarrow> component" where
  "initializeCesium_after_await E s =
     debouncedUpdatePlaces (addEventListener DebouncedUpdatePlaces (add3DTiles E s))"

text \<open>The cleanup that the effect returns, run at teardown.\<close>

definition useEffect_cleanup :: "component \<Rightarrow> component" where
  "useEffect_cleanup s = debounce_cancel s"

section \<open>Example inputs\<close>

text \<open>
  An engine in which a \<open>Cartesian3\<close> holds the geodetic coordinates of the point:
  longitude and latitude in radians and the height in metres. The clamp query and the
  answer of the places service are its parameters.
\<close>

fun height_of :: "cartesian3 \<Rightarrow> real" where
  "height_of (Cartesian3 lon lat h) = h"

fun surface_at :: "real \<Rightarrow> cartesian3 \<Rightarrow> cartesian3" where
  "surface_at h (Cartesian3 lon lat h0) = Cartesian3 lon lat h"

fun at_height :: "real \<Rightarrow> real \<Rightarrow> jsnum \<Rightarrow> cartesian3" where
  "at_height lon lat (Num h) = Cartesian3 lon lat h"
| "at_height lon lat other = Cartesian3 lon lat 0"

text \<open>A \<open>Math.log2\<close> that returns the binary64 value nearest to the logarithm.\<close>

definition correctly_rounded_log2 :: "real \<Rightarrow> real" where
  "correctly_rounded_log2 x = (case round_to_double (log 2 x) of Num y \<Rightarrow> y | other \<Rightarrow> 0)"

definition example_engine ::
  "(cartesian3 list \<Rightarrow> cartesian3 option list option) \<Rightarrow> fetch_outcome \<Rightarrow> engine" where
  "example_engine clamp response =
     \<lparr> toDegrees = (\<lambda>r. r * 180 / pi),
       toRadians = (\<lambda>d. d * pi / 180),
       fromDegrees = (\<lambda>lon lat. Cartesian3 (lon * pi / 180) (lat * pi / 180) 0),
       fromRadians = at_height,
       cartographic_height = height_of,
       ellipsoid_height = height_of,
       clampToHeightMostDetailed = clamp,
       fetch = (\<lambda>req. response),
       fromIonAssetId = (\<lambda>assetId. True),
       NEXT_PUBLIC_CESIUM_TOKEN = ''token'',
       initial_camera = \<lparr> camera_position = Cartesian3 0 0 1000, computeViewRectangle = None \<rparr>,
       log2_approximation = correctly_rounded_log2 \<rparr>"


definition clamp_to_5 :: "cartesian3 list \<Rightarrow> cartesian3 option list option" where
  "clamp_to_5 cartesians = Some (map (\<lambda>c. Some (surface_at 5 c)) cartesians)"

definition clamp_to :: "real \<Rightarrow> cartesian3 list \<Rightarrow> cartesian3 option list option" where
  "clamp_to h cartesians = Some (map (\<lambda>c. Some (surface_at h c)) cartesians)"


definition example_place :: place where
  "example_place = \<lparr> longitude = 10, latitude = 20, primary = ''X'' \<rparr>"


definition example_rectangle :: rectangle where
  "example_rectangle = \<lparr> west = 0, south = 0, east = pi / 180, north = pi / 180 \<rparr>"

text \<open>A marker left in the scene by an earlier refresh.\<close>

definition old_marker :: entity where
  "old_marker =
     place_entity (example_engine clamp_to_5 FetchRejects)
       \<lparr> longitude = 1, latitude = 2, primary = ''old'' \<rparr> (Cartesian3 0 0 5)"

text \<open>
  A viewer whose camera is \<open>h\<close> metres above the ellipsoid, with view rectangle \<open>r\<close> and
  the entities \<open>es\<close>, and a mounted component that holds it.
\<close>

definition example_viewer :: "real \<Rightarrow> rectangle option \<Rightarrow> entity list \<Rightarrow> viewer" where
  "example_viewer h r es =
     \<lparr> options =
         \<lparr> baseLayerPicker = False, geocoder = False, homeButton = False,
           sceneModePicker = False, navigationHelpButton = False, animation = False,
           timeline = False, fullscreenButton = False, infoBox = False,
           selectionIndicator = False \<rparr>,
       resolutionScale = 4.0,
       globe_show = False,
       primitives = [Tileset 2275207 8],
       entities = es,
       camera = \<lparr> camera_position = Cartesian3 0 0 h, computeViewRectangle = r \<rparr>,
       moveEnd_listeners = [DebouncedUpdatePlaces] \<rparr>"

definition example_component :: "viewer option \<Rightarrow> component" where
  "example_component v =
     \<lparr> cesiumContainerRef = True,
       cesiumViewer = v,
       defaultAccessToken = Some ''token'',
       network = [],
       console_error = [],
       debounced_calls = 1,
       debounce_pending = False \<rparr>"

text \<open>
  A component that has just been mounted, and an engine whose new viewer starts with an
  eligible camera that has a view rectangle, whose places service answers with the
  example place, and whose clamp finds the surface 5 metres up.
\<close>

definition mounted_component :: component where
  "mounted_component =
     \<lparr> cesiumContainerRef = True,
       cesiumViewer = None,
       defaultAccessToken = None,
       network = [],
       console_error = [],
       debounced_calls = 0,
       debounce_pending = False \<rparr>"

definition serving_engine :: engine where
  "serving_engine =
     (example_engine clamp_to_5 (JsonData (Some [example_place])))
       \<lparr>initial_camera :=
          \<lparr> camera_position = Cartesian3 0 0 1000,
            computeViewRectangle = Some example_rectangle \<rparr>\<rparr>"

text \<open>
  The mounted component after the first part of \<open>initializeCesium\<close> has run on it with
  that engine: the viewer exists and the tileset load is awaited.
\<close>

definition awaiting_tileset :: component where
  "awaiting_tileset =
     mounted_component
       \<lparr>defaultAccessToken := Some ''token'', cesiumViewer := Some (new_Viewer serving_engine)\<rparr>"

section \<open>Rounding to binary64\<close>

lemma round_half_even_of_int: "round_half_even (of_int n) = n"
  by (simp add: round_half_even_def)

lemma round_half_even_error: "\<bar>of_int (round_half_even r) - r\<bar> \<le> 1 / 2"
  unfolding round_half_even_def Let_def by (auto; linarith)


lemma floor_log2_between:
  fixes x :: real and k :: nat
  assumes "2 ^ k \<le> x" and "x < 2 ^ Suc k"
  shows "\<lfloor>log 2 x\<rfloor> = int k"
proof (rule floor_unique)
  have pos: "0 < x"
    using assms(1) by (smt (verit) zero_less_power)
  show "of_int (int k) \<le> log 2 x"
    using assms(1) pos by (simp add: le_log_iff powr_realpow)
  have "log 2 x < real (Suc k)"
    using assms(2) pos by (simp only: log_less_iff powr_realpow)
  then show "log 2 x < of_int (int k) + 1"
    by simp
qed

lemma double_ulp_between:
  fixes x :: real and k :: nat
  assumes "2 ^ k \<le> \<bar>x\<bar>" and "\<bar>x\<bar> < 2 ^ Suc k"
  shows "double_ulp x = 2 powr (real k - 52)"
  using floor_log2_between[OF assms] by (simp add: double_ulp_def)

lemma round_to_double_between:
  fixes x :: real and k :: nat
  assumes "2 ^ k \<le> \<bar>x\<bar>" and "\<bar>x\<bar> < 2 ^ Suc k" and "k < 1023" and "u = 2 powr (real k - 52)"
  shows "round_to_double x = Num (of_int (round_half_even (x / u)) * u)"
proof -
  have u: "double_ulp x = u"
    using double_ulp_between[OF assms(1,2)] assms(4) by simp
  have upos: "0 < u"
    using assms(4) by simp
  have x0: "x \<noteq> 0"
    using assms(1) by (smt (verit) zero_less_power)
  let ?y = "of_int (round_half_even (x / u)) * u"
  have "\<bar>of_int (round_half_even (x / u)) - x / u\<bar> \<le> 1 / 2"
    by (rule round_half_even_error)
  then have "\<bar>of_int (round_half_even (x / u)) * u - x / u * u\<bar> \<le> 1 / 2 * u"
    using upos
    by (metis abs_mult_pos' left_diff_distrib less_eq_real_def mult.commute mult_left_mono)
  then have err: "\<bar>?y - x\<bar> \<le> u / 2"
    using upos by simp
  have "u \<le> 2 powr real k"
    unfolding assms(4) by (rule powr_mono) auto
  then have ule: "u \<le> 2 ^ k"
    by (simp add: powr_realpow)
  have "(2::real) ^ Suc k \<le> 2 ^ 1023"
    using assms(3) by (intro power_increasing) auto
  then have big: "\<bar>x\<bar> + u / 2 < 2 ^ 1023 + 2 ^ 1023"
    using assms(2) ule upos assms(1) by linarith
  have p: "(2::real) powr 1024 = 2 ^ 1023 + 2 ^ 1023"
    by simp
  have "\<bar>?y\<bar> < 2 powr 1024"
    using err big unfolding p by linarith
  then show ?thesis
    using x0 u by (simp add: round_to_double_def Let_def abs_less_iff not_le)
qed

lemma ulp_small:
  fixes k :: nat
  assumes "k \<le> 52"
  shows "(2::real) powr (real k - 52) = 1 / 2 ^ (52 - k)"
proof -
  have e: "real k - 52 = - real (52 - k)"
    using assms by simp
  have "(2::real) powr (real k - 52) = 2 powr (- real (52 - k))"
    by (simp only: e)
  also have "\<dots> = 1 / 2 powr (real (52 - k))"
    by (simp add: powr_minus_divide)
  also have "\<dots> = 1 / 2 ^ (52 - k)"
    by (simp add: powr_realpow)
  finally show ?thesis .
qed

lemma ulp_large:
  fixes k :: nat
  assumes "52 \<le> k"
  shows "(2::real) powr (real k - 52) = 2 ^ (k - 52)"
proof -
  have e: "real k - 52 = real (k - 52)"
    using assms by simp
  have "(2::real) powr (real k - 52) = 2 powr (real (k - 52))"
    by (simp only: e)
  also have "\<dots> = 2 ^ (k - 52)"
    by (simp add: powr_realpow)
  finally show ?thesis .
qed

lemma round_to_double_small:
  fixes x :: real and k :: nat
  assumes "2 ^ k \<le> \<bar>x\<bar>" and "\<bar>x\<bar> < 2 ^ Suc k" and "k \<le> 52"
  shows "round_to_double x
           = Num (of_int (round_half_even (x * 2 ^ (52 - k))) / 2 ^ (52 - k))"
proof -
  have "k < 1023"
    using assms(3) by simp
  from round_to_double_between[OF assms(1,2) this ulp_small[OF assms(3), symmetric]]
  show ?thesis
    by simp
qed

lemma round_to_double_large:
  fixes x :: real and k :: nat
  assumes "2 ^ k \<le> \<bar>x\<bar>" and "\<bar>x\<bar> < 2 ^ Suc k" and "52 \<le> k" and "k < 1023"
  shows "round_to_double x
           = Num (of_int (round_half_even (x / 2 ^ (k - 52))) * 2 ^ (k - 52))"
  using round_to_double_between[OF assms(1,2,4) ulp_large[OF assms(3), symmetric]] .

lemma round_to_double_exact_small:
  fixes x :: real and k :: nat
  assumes "2 ^ k \<le> \<bar>x\<bar>" and "\<bar>x\<bar> < 2 ^ Suc k" and "k \<le> 52"
    and "x * 2 ^ (52 - k) = of_int m"
  shows "round_to_double x = Num x"
proof -
  have "real_of_int (round_half_even (x * 2 ^ (52 - k))) = x * 2 ^ (52 - k)"
    by (simp only: assms(4) round_half_even_of_int)
  then have "of_int (round_half_even (x * 2 ^ (52 - k))) / 2 ^ (52 - k) = x"
    by simp
  then show ?thesis
    using round_to_double_small[OF assms(1-3)] by simp
qed


text \<open>The numbers that the examples need are binary64 values.\<close>

lemma round_to_double_1: "round_to_double 1 = Num 1"
  by (rule round_to_double_exact_small[where k=0 and m="2 ^ 52"]) simp_all


lemma round_to_double_4: "round_to_double 4 = Num 4"
  by (rule round_to_double_exact_small[where k=2 and m="2 ^ 52"]) simp_all

lemma round_to_double_15: "round_to_double 15 = Num 15"
  by (rule round_to_double_exact_small[where k=3 and m="15 * 2 ^ 49"]) simp_all

lemma round_to_double_16: "round_to_double 16 = Num 16"
  by (rule round_to_double_exact_small[where k=4 and m="2 ^ 52"]) simp_all


lemma round_to_double_19: "round_to_double 19 = Num 19"
  by (rule round_to_double_exact_small[where k=4 and m="19 * 2 ^ 48"]) simp_all

lemma round_to_double_25: "round_to_double 25 = Num 25"
  by (rule round_to_double_exact_small[where k=4 and m="25 * 2 ^ 48"]) simp_all


text \<open>
  Two sums that are not binary64 values. Above \<open>2\<^sup>5\<^sup>3\<close> the binary64 values are the even
  integers, and \<open>2\<^sup>5\<^sup>3 + 19\<close> lies halfway between two of them: the tie goes to the even
  significand. The quotient of the binary64 value next above 8000 by 1000 rounds up to
  the binary64 value next above 8.
\<close>

lemma round_to_double_tie: "round_to_double (9007199254740991 + 20) = Num 9007199254741012"
proof -
  have "round_to_double (9007199254741011::real)
          = Num (of_int (round_half_even (9007199254741011 / 2 ^ (53 - 52))) * 2 ^ (53 - 52))"
    by (rule round_to_double_large) simp_all
  moreover have "round_half_even (9007199254741011 / 2) = 4503599627370506"
    by (simp add: round_half_even_def)
  ultimately show ?thesis
    by simp
qed


section \<open>Zoom level\<close>




lemma log2_16: "log 2 (16::real) = 4"
  using log_nat_power[of 2 2 4] by simp





lemma zoomLevel_1000: "zoomLevel E 1000 = Num 19"
  by (simp add: zoomLevel_def round_to_double_1 round_to_double_19)



section \<open>The example inputs\<close>

lemma correctly_rounded_log2_16: "correctly_rounded_log2 16 = 4"
  by (simp add: correctly_rounded_log2_def log2_16 round_to_double_4)




lemma example_log2: "log2_approximation (example_engine clamp response) = correctly_rounded_log2"
  by (simp add: example_engine_def)

lemma zoomLevel_16000: "zoomLevel (example_engine clamp response) 16000 = Num 15"
  by (simp add: zoomLevel_def example_log2 round_to_double_16 correctly_rounded_log2_16
      round_to_double_15)


lemma example_eligible:
  "isZoomAbove15 (example_engine clamp response)
     (example_component (Some (example_viewer 1000 r es)))"
proof -
  have "ellipsoid_height (example_engine clamp response)
          (camera_position (camera (example_viewer 1000 r es))) = 1000"
    by (simp add: example_engine_def example_viewer_def)
  then show ?thesis
    by (simp add: isZoomAbove15_def example_component_def zoomLevel_1000)
qed

lemma example_bounding_box:
  "getCurrentBoundingBox (example_engine clamp response)
     (example_component (Some (example_viewer h (Some example_rectangle) es)))
   = Some \<lparr> bb_west = 0, bb_south = 0, bb_east = 1, bb_north = 1 \<rparr>"
  by (simp add: getCurrentBoundingBox_def example_engine_def example_component_def
      example_viewer_def example_rectangle_def)

lemma example_markers:
  "markers (example_component (Some (example_viewer h r es))) = es"
  by (simp add: markers_def example_component_def example_viewer_def)

section \<open>Zoom eligibility of a camera height\<close>



section \<open>Refresh without a viewer, and below the zoom threshold\<close>

text \<open>
  Claim C10. While the viewer handle is null a refresh does nothing: the eligibility
  check is false and \<open>updatePlaces\<close> returns the state it was given, so no request has
  been sent and no entity has been added or removed.
\<close>

theorem refresh_without_viewer:
  "cesiumViewer s = None \<Longrightarrow>
     isZoomAbove15 E s = False
     \<and> updatePlaces E s = (None, s)
     \<and> network (snd (updatePlaces E s)) = network s
     \<and> markers (snd (updatePlaces E s)) = markers s"
  by (simp add: isZoomAbove15_def updatePlaces_def)

theorem refresh_without_viewer_witness:
  "cesiumViewer (example_component None) = None
   \<and> updatePlaces (example_engine clamp_to_5 (JsonData (Some [example_place])))
       (example_component None)
     = (None, example_component None)"
  using refresh_without_viewer[of "example_component None"
      "example_engine clamp_to_5 (JsonData (Some [example_place]))"]
  by (simp add: example_component_def)

text \<open>
  Claim C4. With a viewer whose camera is not eligible (zoom level 15 or below), a
  refresh removes every entity and sends no request.
\<close>

theorem ineligible_refresh_clears:
  assumes "cesiumViewer s = Some v" and "\<not> isZoomAbove15 E s"
  shows "updatePlaces E s = (None, s\<lparr>cesiumViewer := Some (v\<lparr>entities := []\<rparr>)\<rparr>)
         \<and> markers (snd (updatePlaces E s)) = []
         \<and> network (snd (updatePlaces E s)) = network s"
  using assms by (simp add: updatePlaces_def markers_def)

theorem ineligible_refresh_clears_witness:
  "zoomLevel (example_engine clamp_to_5 (JsonData (Some [example_place]))) 16000 = Num 15
   \<and> \<not> isZoomAbove15 (example_engine clamp_to_5 (JsonData (Some [example_place])))
         (example_component (Some (example_viewer 16000 (Some example_rectangle) [old_marker])))
   \<and> markers (example_component (Some (example_viewer 16000 (Some example_rectangle) [old_marker])))
       = [old_marker]
   \<and> markers (snd (updatePlaces (example_engine clamp_to_5 (JsonData (Some [example_place])))
         (example_component (Some (example_viewer 16000 (Some example_rectangle) [old_marker])))))
       = []
   \<and> network (snd (updatePlaces (example_engine clamp_to_5 (JsonData (Some [example_place])))
         (example_component (Some (example_viewer 16000 (Some example_rectangle) [old_marker])))))
       = []"
proof -
  let ?E = "example_engine clamp_to_5 (JsonData (Some [example_place]))"
  let ?v = "example_viewer 16000 (Some example_rectangle) [old_marker]"
  let ?s = "example_component (Some ?v)"
  have v: "cesiumViewer ?s = Some ?v"
    by (simp add: example_component_def)
  have h: "ellipsoid_height ?E (camera_position (camera ?v)) = 16000"
    by (simp add: example_engine_def example_viewer_def)
  have l: "zoomLevel ?E 16000 = Num 15"
    by (rule zoomLevel_16000)
  have z: "\<not> isZoomAbove15 ?E ?s"
    by (simp add: isZoomAbove15_def v h l)
  have m: "markers ?s = [old_marker]"
    by (simp add: markers_def example_component_def example_viewer_def)
  have n: "network ?s = []"
    by (simp add: example_component_def)
  have r: "markers (snd (updatePlaces ?E ?s)) = []
           \<and> network (snd (updatePlaces ?E ?s)) = network ?s"
    using ineligible_refresh_clears[OF v z] by blast
  show ?thesis
    using r z m n l by simp
qed

section \<open>Bootstrap runs once\<close>

lemma add3DTiles_viewer:
  "cesiumViewer (add3DTiles E s) = None \<longleftrightarrow> cesiumViewer s = None"
  by (simp add: add3DTiles_def split: option.splits)

lemma addEventListener_viewer:
  "cesiumViewer (addEventListener l s) = None \<longleftrightarrow> cesiumViewer s = None"
  by (simp add: addEventListener_def split: option.splits)

lemma debouncedUpdatePlaces_viewer:
  "cesiumViewer (debouncedUpdatePlaces s) = cesiumViewer s"
  by (simp add: debouncedUpdatePlaces_def)

lemma initializeCesium_viewer:
  "cesiumContainerRef s \<Longrightarrow> cesiumViewer (initializeCesium E s) \<noteq> None"
  by (simp add: initializeCesium_def Let_def add3DTiles_viewer addEventListener_viewer
      debouncedUpdatePlaces_viewer del: not_None_eq)

lemma initializeCesium_noop:
  "cesiumViewer s \<noteq> None \<Longrightarrow> initializeCesium E s = s"
  by (auto simp: initializeCesium_def)

lemma initializeCesium_unmounted:
  "\<not> cesiumContainerRef s \<Longrightarrow> initializeCesium E s = s"
  by (simp add: initializeCesium_def)

lemma initializeCesium_container:
  "cesiumContainerRef (initializeCesium E s) = cesiumContainerRef s"
  by (simp add: initializeCesium_def Let_def add3DTiles_def addEventListener_def
      debouncedUpdatePlaces_def split: option.splits)

text \<open>Run without interruption, the two parts are the whole function.\<close>

lemma initializeCesium_split:
  "initializeCesium E s =
     (case initializeCesium_until_await E s of
        Some s2 \<Rightarrow> initializeCesium_after_await E s2
      | None \<Rightarrow> s)"
  by (simp add: initializeCesium_def initializeCesium_until_await_def
      initializeCesium_after_await_def Let_def)

text \<open>
  Claim C9. While a viewer instance exists, \<open>initializeCesium\<close> returns the state it was
  given: no viewer is created, nothing is configured, no tileset is loaded, no listener
  is added. A mounted container without a viewer gets one, so a second call after the
  first is such a no-op.
\<close>

theorem initialize_once:
  "(cesiumViewer s \<noteq> None \<longrightarrow> initializeCesium E s = s)
   \<and> (cesiumContainerRef s \<longrightarrow> cesiumViewer (initializeCesium E s) \<noteq> None)
   \<and> initializeCesium E' (initializeCesium E s) = initializeCesium E s"
proof -
  have a: "cesiumViewer s \<noteq> None \<longrightarrow> initializeCesium E s = s"
    using initializeCesium_noop by blast
  have b: "cesiumContainerRef s \<longrightarrow> cesiumViewer (initializeCesium E s) \<noteq> None"
    by (simp add: initializeCesium_viewer)
  have c: "initializeCesium E' (initializeCesium E s) = initializeCesium E s"
  proof (cases "cesiumContainerRef s")
    case True
    then have "cesiumViewer (initializeCesium E s) \<noteq> None"
      by (rule initializeCesium_viewer)
    then show ?thesis
      by (rule initializeCesium_noop)
  next
    case False
    then have "\<not> cesiumContainerRef (initializeCesium E s)"
      by (simp add: initializeCesium_container)
    then show ?thesis
      by (rule initializeCesium_unmounted)
  qed
  from a b c show ?thesis by blast
qed

theorem initialize_once_witness:
  "cesiumViewer (example_component (Some (example_viewer 1000 None [old_marker]))) \<noteq> None
   \<and> initializeCesium (example_engine clamp_to_5 FetchRejects)
       (example_component (Some (example_viewer 1000 None [old_marker])))
     = example_component (Some (example_viewer 1000 None [old_marker]))
   \<and> cesiumContainerRef (example_component None)
   \<and> cesiumViewer (initializeCesium (example_engine clamp_to_5 FetchRejects)
       (example_component None)) \<noteq> None"
  using initialize_once[of "example_component (Some (example_viewer 1000 None [old_marker]))"
      "example_engine clamp_to_5 FetchRejects"]
    initialize_once[of "example_component None" "example_engine clamp_to_5 FetchRejects"]
  by (simp add: example_component_def)

section \<open>The fetch gateway\<close>


lemma fetchOverturePlaces_no_rectangle:
  assumes "cesiumViewer s = Some v" and "computeViewRectangle (camera v) = None"
  shows "fetchOverturePlaces E s = (Some [], s)"
  using assms by (simp add: fetchOverturePlaces_def getCurrentBoundingBox_def)

text \<open>
  Claim C6. When the camera is eligible and has a bounding box, and the request fails
  in the network or its body does not parse, the \<open>try\<close> block ends in an error, the
  gateway catches it, logs one line and returns the empty list; the refresh goes on to
  call the label renderer with that empty list.
\<close>

theorem fetch_failure_gives_empty_list:
  assumes "isZoomAbove15 E s"
    and "getCurrentBoundingBox E s = Some b"
    and "fetch E (apiUrl b) = FetchRejects \<or> fetch E (apiUrl b) = JsonRejects"
  shows "(\<exists>error. fetch_features E (apiUrl b) = Inl error)
         \<and> fetchOverturePlaces E s
             = (Some [],
                s\<lparr>network := network s @ [apiUrl b],
                  console_error := console_error s @ [''Error fetching Overture Maps data:'']\<rparr>)
         \<and> updatePlaces E s
             = addPlaceLabels E (Some [])
                 (s\<lparr>network := network s @ [apiUrl b],
                    console_error := console_error s @ [''Error fetching Overture Maps data:'']\<rparr>)"
proof -
  from assms(3) have e: "\<exists>error. fetch_features E (apiUrl b) = Inl error"
    by (auto simp: fetch_features_def)
  then have f: "fetchOverturePlaces E s
             = (Some [],
                s\<lparr>network := network s @ [apiUrl b],
                  console_error := console_error s @ [''Error fetching Overture Maps data:'']\<rparr>)"
    using assms(1,2) by (auto simp: fetchOverturePlaces_def Let_def)
  have "updatePlaces E s
          = (case fetchOverturePlaces E s of (places, s1) \<Rightarrow> addPlaceLabels E places s1)"
    using assms(1) by (simp add: updatePlaces_def)
  with e f show ?thesis by simp
qed

theorem fetch_failure_gives_empty_list_witness:
  "isZoomAbove15 (example_engine clamp_to_5 FetchRejects)
     (example_component (Some (example_viewer 1000 (Some example_rectangle) [old_marker])))
   \<and> getCurrentBoundingBox (example_engine clamp_to_5 FetchRejects)
       (example_component (Some (example_viewer 1000 (Some example_rectangle) [old_marker])))
     = Some \<lparr> bb_west = 0, bb_south = 0, bb_east = 1, bb_north = 1 \<rparr>
   \<and> fetch (example_engine clamp_to_5 FetchRejects)
       (apiUrl \<lparr> bb_west = 0, bb_south = 0, bb_east = 1, bb_north = 1 \<rparr>) = FetchRejects
   \<and> fst (fetchOverturePlaces (example_engine clamp_to_5 FetchRejects)
       (example_component (Some (example_viewer 1000 (Some example_rectangle) [old_marker]))))
     = Some []
   \<and> console_error (snd (fetchOverturePlaces (example_engine clamp_to_5 FetchRejects)
       (example_component (Some (example_viewer 1000 (Some example_rectangle) [old_marker])))))
     = [''Error fetching Overture Maps data:'']"
proof -
  let ?E = "example_engine clamp_to_5 FetchRejects"
  let ?s = "example_component (Some (example_viewer 1000 (Some example_rectangle) [old_marker]))"
  let ?b = "\<lparr> bb_west = 0, bb_south = 0, bb_east = 1, bb_north = 1 \<rparr>"
  have z: "isZoomAbove15 ?E ?s"
    by (rule example_eligible)
  have b: "getCurrentBoundingBox ?E ?s = Some ?b"
    by (rule example_bounding_box)
  have f: "fetch ?E (apiUrl ?b) = FetchRejects"
    by (simp add: example_engine_def)
  then have f': "fetch ?E (apiUrl ?b) = FetchRejects \<or> fetch ?E (apiUrl ?b) = JsonRejects"
    by simp
  have c: "console_error ?s = []"
    by (simp add: example_component_def)
  have "fetchOverturePlaces ?E ?s
          = (Some [],
             ?s\<lparr>network := network ?s @ [apiUrl ?b],
                console_error := console_error ?s @ [''Error fetching Overture Maps data:'']\<rparr>)"
    using fetch_failure_gives_empty_list[OF z b f'] by blast
  then show ?thesis
    using z b f c by simp
qed

section \<open>The label renderer\<close>

lemma clamp_and_label_Nil: "snd (clamp_and_label E []) = []"
  by (simp add: clamp_and_label_def split: option.splits)

lemma addPlaceLabels_Nil:
  assumes "cesiumViewer s = Some v"
  shows "fst (addPlaceLabels E (Some []) s) = None"
    and "markers (snd (addPlaceLabels E (Some []) s)) = []"
    and "network (snd (addPlaceLabels E (Some []) s)) = network s"
  using assms clamp_and_label_Nil[of E]
  by (auto simp: addPlaceLabels_def markers_def split: prod.splits option.splits)


lemma forEach_place_all_clamped:
  "length ps \<le> length cs \<Longrightarrow>
   forEach_place E (map Some (pre @ cs)) ps (length pre) es
     = (None, es @ map (\<lambda>(p, c). place_entity E p c) (zip ps cs))"
proof (induction ps arbitrary: pre cs es)
  case Nil
  then show ?case by simp
next
  case (Cons p ps)
  then obtain c cs' where cs: "cs = c # cs'"
    by (cases cs) auto
  have at: "clamped_at (map Some (pre @ c # cs')) (length pre) = Some c"
    by (simp add: clamped_at_def nth_append)
  have "forEach_place E (map Some ((pre @ [c]) @ cs')) ps (length (pre @ [c]))
          (es @ [place_entity E p c])
        = (None, (es @ [place_entity E p c]) @ map (\<lambda>(p, c). place_entity E p c) (zip ps cs'))"
    using Cons.prems cs by (intro Cons.IH) simp
  then show ?case
    using at cs by simp
qed

lemma clamp_and_label_all_clamped:
  assumes "clampToHeightMostDetailed E (map (\<lambda>p. fromDegrees E (longitude p) (latitude p)) ps)
             = Some (map Some cs)"
    and "length cs = length ps"
  shows "clamp_and_label E ps = (None, map (\<lambda>(p, c). place_entity E p c) (zip ps cs))"
  using assms forEach_place_all_clamped[of ps cs E "[]" "[]"]
  by (simp add: clamp_and_label_def)

lemma addPlaceLabels_all_clamped:
  assumes "cesiumViewer s = Some v"
    and "clampToHeightMostDetailed E (map (\<lambda>p. fromDegrees E (longitude p) (latitude p)) ps)
           = Some (map Some cs)"
    and "length cs = length ps"
  shows "addPlaceLabels E (Some ps) s
           = (None,
              s\<lparr>cesiumViewer :=
                   Some (v\<lparr>entities := map (\<lambda>(p, c). place_entity E p c) (zip ps cs)\<rparr>)\<rparr>)"
  using assms(1) clamp_and_label_all_clamped[OF assms(2,3)]
  by (simp add: addPlaceLabels_def)

text \<open>
  Claim C3, as the code has it. With a viewer, and when the batched clamp call returns
  a position for every feature, the label renderer leaves exactly one entity per
  feature, in input order. The entity of feature \<open>i\<close> is positioned at the label anchor:
  the feature's longitude and latitude, at the height that the sum of the clamped
  height and the fixed offset 20 gives in binary64 arithmetic. Its text label shows
  the feature's primary name; its point glyph has no position of its own and is drawn
  at that same anchor, not at the clamped surface position; its connector line runs
  from the clamped position to the anchor. Label and point have the display range 0
  to 6000 and an infinite \<open>disableDepthTestDistance\<close>, the line the display range 0 to
  1000.
\<close>

theorem place_markers_in_order:
  assumes "cesiumViewer s = Some v"
    and "clampToHeightMostDetailed E (map (\<lambda>p. fromDegrees E (longitude p) (latitude p)) ps)
           = Some (map Some cs)"
    and "length cs = length ps"
  shows "fst (addPlaceLabels E (Some ps) s) = None
         \<and> markers (snd (addPlaceLabels E (Some ps) s))
             = map (\<lambda>(p, c). place_entity E p c) (zip ps cs)
         \<and> length (markers (snd (addPlaceLabels E (Some ps) s))) = length ps
         \<and> (\<forall>i<length ps.
               position (markers (snd (addPlaceLabels E (Some ps) s)) ! i)
                 = fromRadians E (toRadians E (longitude (ps ! i))) (toRadians E (latitude (ps ! i)))
                     (round_to_double (cartographic_height E (cs ! i) + 20))
               \<and> label_text (label (markers (snd (addPlaceLabels E (Some ps) s)) ! i))
                   = primary (ps ! i)
               \<and> polyline_positions (polyline (markers (snd (addPlaceLabels E (Some ps) s)) ! i))
                   = [cs ! i, position (markers (snd (addPlaceLabels E (Some ps) s)) ! i)]
               \<and> label_distanceDisplayCondition
                     (label (markers (snd (addPlaceLabels E (Some ps) s)) ! i)) = (0, 6000)
               \<and> label_disableDepthTestDistance
                     (label (markers (snd (addPlaceLabels E (Some ps) s)) ! i)) = PosInf
               \<and> point_distanceDisplayCondition
                     (point (markers (snd (addPlaceLabels E (Some ps) s)) ! i)) = (0, 6000)
               \<and> point_disableDepthTestDistance
                     (point (markers (snd (addPlaceLabels E (Some ps) s)) ! i)) = PosInf
               \<and> polyline_distanceDisplayCondition
                     (polyline (markers (snd (addPlaceLabels E (Some ps) s)) ! i)) = (0, 1000))"
proof -
  let ?ms = "markers (snd (addPlaceLabels E (Some ps) s))"
  have r: "addPlaceLabels E (Some ps) s
           = (None,
              s\<lparr>cesiumViewer :=
                   Some (v\<lparr>entities := map (\<lambda>(p, c). place_entity E p c) (zip ps cs)\<rparr>)\<rparr>)"
    using assms by (rule addPlaceLabels_all_clamped)
  then have ms: "?ms = map (\<lambda>(p, c). place_entity E p c) (zip ps cs)"
    by (simp add: markers_def)
  have len: "length ?ms = length ps"
    using assms(3) by (simp add: ms)
  have at: "?ms ! i = place_entity E (ps ! i) (cs ! i)" if "i < length ps" for i
    using that assms(3) by (simp add: ms)
  have "fst (addPlaceLabels E (Some ps) s) = None"
    by (simp add: r)
  moreover have "\<forall>i<length ps.
               position (?ms ! i)
                 = fromRadians E (toRadians E (longitude (ps ! i))) (toRadians E (latitude (ps ! i)))
                     (round_to_double (cartographic_height E (cs ! i) + 20))
               \<and> label_text (label (?ms ! i)) = primary (ps ! i)
               \<and> polyline_positions (polyline (?ms ! i)) = [cs ! i, position (?ms ! i)]
               \<and> label_distanceDisplayCondition (label (?ms ! i)) = (0, 6000)
               \<and> label_disableDepthTestDistance (label (?ms ! i)) = PosInf
               \<and> point_distanceDisplayCondition (point (?ms ! i)) = (0, 6000)
               \<and> point_disableDepthTestDistance (point (?ms ! i)) = PosInf
               \<and> polyline_distanceDisplayCondition (polyline (?ms ! i)) = (0, 1000)"
    by (simp add: at place_entity_def labelPosition_def)
  ultimately show ?thesis
    using ms len by blast
qed

text \<open>
  The witness clamps the example place to the height \<open>2\<^sup>5\<^sup>3 - 1\<close>, where adding 20 is
  not exact: the anchor is at 9007199254741012, the binary64 value of the sum.
\<close>

theorem place_markers_in_order_witness:
  "cesiumViewer (example_component (Some (example_viewer 1000 (Some example_rectangle) [old_marker])))
     = Some (example_viewer 1000 (Some example_rectangle) [old_marker])
   \<and> clampToHeightMostDetailed (example_engine (clamp_to 9007199254740991) FetchRejects)
       (map (\<lambda>p. fromDegrees (example_engine (clamp_to 9007199254740991) FetchRejects)
                 (longitude p) (latitude p))
          [example_place])
     = Some (map Some [Cartesian3 (10 * pi / 180) (20 * pi / 180) 9007199254740991])
   \<and> length (markers (snd (addPlaceLabels (example_engine (clamp_to 9007199254740991) FetchRejects)
         (Some [example_place])
         (example_component (Some (example_viewer 1000 (Some example_rectangle) [old_marker]))))))
     = 1
   \<and> label_text (label (markers (snd (addPlaceLabels
         (example_engine (clamp_to 9007199254740991) FetchRejects) (Some [example_place])
         (example_component (Some (example_viewer 1000 (Some example_rectangle) [old_marker])))))
       ! 0))
     = ''X''
   \<and> polyline_positions (polyline (markers (snd (addPlaceLabels
         (example_engine (clamp_to 9007199254740991) FetchRejects) (Some [example_place])
         (example_component (Some (example_viewer 1000 (Some example_rectangle) [old_marker])))))
       ! 0))
     = [Cartesian3 (10 * pi / 180) (20 * pi / 180) 9007199254740991,
        Cartesian3 (10 * pi / 180) (20 * pi / 180) 9007199254741012]"
proof -
  let ?E = "example_engine (clamp_to 9007199254740991) FetchRejects"
  let ?v = "example_viewer 1000 (Some example_rectangle) [old_marker]"
  let ?s = "example_component (Some ?v)"
  let ?c = "Cartesian3 (10 * pi / 180) (20 * pi / 180) 9007199254740991"
  let ?ms = "markers (snd (addPlaceLabels ?E (Some [example_place]) ?s))"
  have v: "cesiumViewer ?s = Some ?v"
    by (simp add: example_component_def)
  have c: "clampToHeightMostDetailed ?E
             (map (\<lambda>p. fromDegrees ?E (longitude p) (latitude p)) [example_place])
           = Some (map Some [?c])"
    by (simp add: example_engine_def clamp_to_def example_place_def)
  have l: "length [?c] = length [example_place]"
    by simp
  note t = place_markers_in_order[OF v c l]
  have len: "length ?ms = 1"
    using t by simp
  have "0 < length [example_place]"
    by simp
  with t have
    "position (?ms ! 0)
       = fromRadians ?E (toRadians ?E (longitude ([example_place] ! 0)))
           (toRadians ?E (latitude ([example_place] ! 0)))
           (round_to_double (cartographic_height ?E ([?c] ! 0) + 20))
     \<and> label_text (label (?ms ! 0)) = primary ([example_place] ! 0)
     \<and> polyline_positions (polyline (?ms ! 0)) = [[?c] ! 0, position (?ms ! 0)]"
    by blast
  moreover have "round_to_double (cartographic_height ?E ([?c] ! 0) + 20) = Num 9007199254741012"
    using round_to_double_tie by (simp add: example_engine_def)
  ultimately have "label_text (label (?ms ! 0)) = ''X''"
    and "polyline_positions (polyline (?ms ! 0))
           = [?c, Cartesian3 (10 * pi / 180) (20 * pi / 180) 9007199254741012]"
    by (simp_all add: example_place_def example_engine_def)
  with v c len show ?thesis
    by blast
qed

text \<open>
  Claim C3 as the spec states it fails: for the feature at longitude 10 and latitude
  20 named X, clamped to the surface position at height 5, the one entity added is
  positioned 20 metres higher, and so is its point glyph; only the connector line
  starts at the clamped position.
\<close>

theorem point_at_surface_counterexample:
  "clampToHeightMostDetailed (example_engine clamp_to_5 FetchRejects)
       (map (\<lambda>p. fromDegrees (example_engine clamp_to_5 FetchRejects) (longitude p) (latitude p))
          [example_place])
     = Some [Some (Cartesian3 (10 * pi / 180) (20 * pi / 180) 5)]
   \<and> markers (snd (addPlaceLabels (example_engine clamp_to_5 FetchRejects)
         (Some [example_place])
         (example_component (Some (example_viewer 1000 (Some example_rectangle) [])))))
     = [place_entity (example_engine clamp_to_5 FetchRejects) example_place
          (Cartesian3 (10 * pi / 180) (20 * pi / 180) 5)]
   \<and> position (place_entity (example_engine clamp_to_5 FetchRejects) example_place
         (Cartesian3 (10 * pi / 180) (20 * pi / 180) 5))
     = Cartesian3 (10 * pi / 180) (20 * pi / 180) 25
   \<and> position (place_entity (example_engine clamp_to_5 FetchRejects) example_place
         (Cartesian3 (10 * pi / 180) (20 * pi / 180) 5))
     \<noteq> Cartesian3 (10 * pi / 180) (20 * pi / 180) 5"
proof -
  let ?E = "example_engine clamp_to_5 FetchRejects"
  let ?v = "example_viewer 1000 (Some example_rectangle) []"
  let ?s = "example_component (Some ?v)"
  let ?c = "Cartesian3 (10 * pi / 180) (20 * pi / 180) 5"
  have v: "cesiumViewer ?s = Some ?v"
    by (simp add: example_component_def)
  have c: "clampToHeightMostDetailed ?E
             (map (\<lambda>p. fromDegrees ?E (longitude p) (latitude p)) [example_place])
           = Some (map Some [?c])"
    by (simp add: example_engine_def clamp_to_5_def example_place_def)
  have "addPlaceLabels ?E (Some [example_place]) ?s
          = (None,
             ?s\<lparr>cesiumViewer :=
                  Some (?v\<lparr>entities :=
                     map (\<lambda>(p, c). place_entity ?E p c) (zip [example_place] [?c])\<rparr>)\<rparr>)"
    using v c by (rule addPlaceLabels_all_clamped) simp
  then have m: "markers (snd (addPlaceLabels ?E (Some [example_place]) ?s))
                = [place_entity ?E example_place ?c]"
    by (simp add: markers_def)
  have p: "position (place_entity ?E example_place ?c)
           = Cartesian3 (10 * pi / 180) (20 * pi / 180) 25"
    using round_to_double_25
    by (simp add: place_entity_def labelPosition_def example_engine_def example_place_def)
  from c m p show ?thesis
    by simp
qed

section \<open>The refresh cycle with a missing rectangle\<close>

text \<open>
  Claim C1, as the code has it. When the engine gives no view rectangle for the camera
  of an existing viewer, a refresh sends no request and adds no marker, and it ends
  with an empty scene: the markers that were there are removed (below the zoom
  threshold by the clearing branch, above it by the label renderer, which is called
  with the empty list).
\<close>

theorem no_rectangle_refresh_clears:
  assumes "cesiumViewer s = Some v" and "computeViewRectangle (camera v) = None"
  shows "fst (updatePlaces E s) = None
         \<and> markers (snd (updatePlaces E s)) = []
         \<and> network (snd (updatePlaces E s)) = network s"
proof (cases "isZoomAbove15 E s")
  case True
  have "fetchOverturePlaces E s = (Some [], s)"
    using assms by (rule fetchOverturePlaces_no_rectangle)
  with True have "updatePlaces E s = addPlaceLabels E (Some []) s"
    by (simp add: updatePlaces_def)
  then show ?thesis
    using addPlaceLabels_Nil[OF assms(1), of E] by simp
next
  case False
  with assms(1) show ?thesis
    by (simp add: updatePlaces_def markers_def)
qed

theorem no_rectangle_refresh_clears_witness:
  "cesiumViewer (example_component (Some (example_viewer 1000 None [old_marker])))
     = Some (example_viewer 1000 None [old_marker])
   \<and> computeViewRectangle (camera (example_viewer 1000 None [old_marker])) = None
   \<and> markers (snd (updatePlaces (example_engine clamp_to_5 (JsonData (Some [example_place])))
         (example_component (Some (example_viewer 1000 None [old_marker]))))) = []
   \<and> network (snd (updatePlaces (example_engine clamp_to_5 (JsonData (Some [example_place])))
         (example_component (Some (example_viewer 1000 None [old_marker]))))) = []"
proof -
  let ?E = "example_engine clamp_to_5 (JsonData (Some [example_place]))"
  let ?v = "example_viewer 1000 None [old_marker]"
  let ?s = "example_component (Some ?v)"
  have r: "computeViewRectangle (camera ?v) = None"
    by (simp add: example_viewer_def)
  have v: "cesiumViewer ?s = Some ?v"
    by (simp add: example_component_def)
  have n: "network ?s = []"
    by (simp add: example_component_def)
  show ?thesis
    using no_rectangle_refresh_clears[OF v r, of ?E] v r n by simp
qed

text \<open>
  Claim C1 as the spec states it fails: with an eligible camera and no view rectangle,
  the marker of the earlier refresh is removed.
\<close>

theorem no_rectangle_no_change_counterexample:
  "computeViewRectangle (camera (example_viewer 1000 None [old_marker])) = None
   \<and> markers (example_component (Some (example_viewer 1000 None [old_marker]))) = [old_marker]
   \<and> markers (snd (updatePlaces (example_engine clamp_to_5 (JsonData (Some [example_place])))
         (example_component (Some (example_viewer 1000 None [old_marker]))))) = []
   \<and> snd (updatePlaces (example_engine clamp_to_5 (JsonData (Some [example_place])))
         (example_component (Some (example_viewer 1000 None [old_marker]))))
       \<noteq> example_component (Some (example_viewer 1000 None [old_marker]))"
proof -
  let ?E = "example_engine clamp_to_5 (JsonData (Some [example_place]))"
  let ?v = "example_viewer 1000 None [old_marker]"
  let ?s = "example_component (Some ?v)"
  have r: "computeViewRectangle (camera ?v) = None"
    by (simp add: example_viewer_def)
  have v: "cesiumViewer ?s = Some ?v"
    by (simp add: example_component_def)
  have f: "fetchOverturePlaces ?E ?s = (Some [], ?s)"
    using v r by (rule fetchOverturePlaces_no_rectangle)
  have u: "updatePlaces ?E ?s = addPlaceLabels ?E (Some []) ?s"
    using example_eligible[of clamp_to_5 "JsonData (Some [example_place])" None "[old_marker]"] f
    by (simp add: updatePlaces_def)
  have after: "markers (snd (updatePlaces ?E ?s)) = []"
    using u addPlaceLabels_Nil(2)[OF v, of ?E] by simp
  have before: "markers ?s = [old_marker]"
    by (rule example_markers)
  from before after have "snd (updatePlaces ?E ?s) \<noteq> ?s"
    by auto
  with r before after show ?thesis
    by blast
qed

section \<open>A failing clamp\<close>








section \<open>Teardown\<close>

lemma cleanup_cancels_pending:
  "\<not> debounce_pending (useEffect_cleanup s)
   \<and> debounce_timer_fires E (useEffect_cleanup s) = (None, useEffect_cleanup s)"
  by (simp add: useEffect_cleanup_def debounce_cancel_def debounce_timer_fires_def)

text \<open>
  Claim C8. The cleanup cancels a call of the debounced refresh that is pending at
  teardown (\<open>cleanup_cancels_pending\<close>), but a refresh can still fire afterwards. The
  component is mounted and \<open>initializeCesium\<close> runs up to the awaited tileset load;
  the component is torn down while the load is in flight, and the cleanup finds nothing
  pending; the load settles and the rest of \<open>initializeCesium\<close> registers the listener
  and calls the debounced refresh; its timer runs out and the refresh sends a request
  and adds a marker to the scene, after teardown.
\<close>

theorem teardown_during_tileset_load:
  "initializeCesium_until_await serving_engine mounted_component = Some awaiting_tileset
   \<and> useEffect_cleanup awaiting_tileset = awaiting_tileset
   \<and> \<not> debounce_pending (useEffect_cleanup awaiting_tileset)
   \<and> markers (useEffect_cleanup awaiting_tileset) = []
   \<and> debounce_pending
       (initializeCesium_after_await serving_engine (useEffect_cleanup awaiting_tileset))
   \<and> network (snd (debounce_timer_fires serving_engine
         (initializeCesium_after_await serving_engine (useEffect_cleanup awaiting_tileset))))
     = [apiUrl \<lparr> bb_west = 0, bb_south = 0, bb_east = 1, bb_north = 1 \<rparr>]
   \<and> markers (snd (debounce_timer_fires serving_engine
         (initializeCesium_after_await serving_engine (useEffect_cleanup awaiting_tileset))))
     = [place_entity serving_engine example_place (Cartesian3 (10 * pi / 180) (20 * pi / 180) 5)]"
proof -
  let ?E = "serving_engine"
  let ?b = "\<lparr> bb_west = 0, bb_south = 0, bb_east = 1, bb_north = 1 \<rparr>"
  let ?c = "Cartesian3 (10 * pi / 180) (20 * pi / 180) 5"
  define v where "v = (new_Viewer ?E)
     \<lparr>primitives := [Tileset 2275207 8], moveEnd_listeners := [DebouncedUpdatePlaces]\<rparr>"
  define s where "s = awaiting_tileset\<lparr>cesiumViewer := Some v, debounced_calls := 1\<rparr>"
  have start: "initializeCesium_until_await ?E mounted_component = Some awaiting_tileset"
    by (simp add: initializeCesium_until_await_def mounted_component_def awaiting_tileset_def
        serving_engine_def example_engine_def Let_def)
  have cleanup: "useEffect_cleanup awaiting_tileset = awaiting_tileset"
    by (simp add: useEffect_cleanup_def debounce_cancel_def awaiting_tileset_def
        mounted_component_def)
  have before: "markers awaiting_tileset = []" "\<not> debounce_pending awaiting_tileset"
    by (simp_all add: markers_def awaiting_tileset_def mounted_component_def new_Viewer_def)
  have resumed: "initializeCesium_after_await ?E awaiting_tileset = s\<lparr>debounce_pending := True\<rparr>"
    by (simp add: initializeCesium_after_await_def add3DTiles_def addEventListener_def
        debouncedUpdatePlaces_def awaiting_tileset_def mounted_component_def s_def v_def
        serving_engine_def example_engine_def new_Viewer_def)
  have sv: "cesiumViewer s = Some v" and sn: "network s = []" and sp: "\<not> debounce_pending s"
    by (simp_all add: s_def awaiting_tileset_def mounted_component_def)
  have s_reset: "s\<lparr>debounce_pending := True, debounce_pending := False\<rparr> = s"
    using sp by simp
  have cam: "camera v
      = \<lparr> camera_position = Cartesian3 0 0 1000, computeViewRectangle = Some example_rectangle \<rparr>"
    by (simp add: v_def new_Viewer_def serving_engine_def example_engine_def)
  have height: "ellipsoid_height ?E (Cartesian3 0 0 1000) = 1000"
    by (simp add: serving_engine_def example_engine_def)
  have z: "isZoomAbove15 ?E s"
    by (simp add: isZoomAbove15_def sv cam height zoomLevel_1000)
  have b: "getCurrentBoundingBox ?E s = Some ?b"
    by (simp add: getCurrentBoundingBox_def sv cam example_rectangle_def serving_engine_def
        example_engine_def)
  have f: "fetch_features ?E (apiUrl ?b) = Inr (Some [example_place])"
    by (simp add: fetch_features_def serving_engine_def example_engine_def)
  have fetched: "fetchOverturePlaces ?E s = (Some [example_place], s\<lparr>network := [apiUrl ?b]\<rparr>)"
    using z b f sn by (simp add: fetchOverturePlaces_def Let_def)
  have c: "clampToHeightMostDetailed ?E
             (map (\<lambda>p. fromDegrees ?E (longitude p) (latitude p)) [example_place])
           = Some (map Some [?c])"
    by (simp add: serving_engine_def example_engine_def clamp_to_5_def example_place_def)
  have "cesiumViewer (s\<lparr>network := [apiUrl ?b]\<rparr>) = Some v"
    using sv by simp
  then have "addPlaceLabels ?E (Some [example_place]) (s\<lparr>network := [apiUrl ?b]\<rparr>)
          = (None,
             s\<lparr>network := [apiUrl ?b],
               cesiumViewer :=
                  Some (v\<lparr>entities :=
                     map (\<lambda>(p, c). place_entity ?E p c) (zip [example_place] [?c])\<rparr>)\<rparr>)"
    using c by (rule addPlaceLabels_all_clamped) simp
  then have refreshed: "updatePlaces ?E s
          = (None,
             s\<lparr>network := [apiUrl ?b],
               cesiumViewer := Some (v\<lparr>entities := [place_entity ?E example_place ?c]\<rparr>)\<rparr>)"
    using z fetched by (simp add: updatePlaces_def)
  have fired: "debounce_timer_fires ?E (s\<lparr>debounce_pending := True\<rparr>) = updatePlaces ?E s"
    using s_reset by (simp add: debounce_timer_fires_def)
  have "network (snd (debounce_timer_fires ?E (s\<lparr>debounce_pending := True\<rparr>))) = [apiUrl ?b]"
    and "markers (snd (debounce_timer_fires ?E (s\<lparr>debounce_pending := True\<rparr>)))
           = [place_entity ?E example_place ?c]"
    by (simp_all add: fired refreshed markers_def)
  then show ?thesis
    using start cleanup before resumed by simp
qed

end
